theory Spec2Isabelle
  imports Complex_Main
begin

section \<open>Nearest-neighbour image classifier: the notebooks as functions\<close>

text \<open>
  The repository holds two notebooks. The later one (\<^verbatim>\<open>src/unnamed/part_000\<close>) classifies
  one test image at a time (\<^verbatim>\<open>classify_image\<close>) and averages the accuracy over random
  training subsets (\<^verbatim>\<open>get_average_accuracy\<close>, \<^verbatim>\<open>accuracy_info\<close>); the earlier one
  (\<^verbatim>\<open>src/practice_1/ImageClassifier.ipynb\<close>) builds the whole distance matrix at once
  (\<^verbatim>\<open>classify_images\<close>). Both share \<^verbatim>\<open>get_random_subset\<close>.

  Conventions of the embedding.
  \<^item> In this first embedding a numpy \<^verbatim>\<open>float64\<close> is an element of \<^typ>\<open>real\<close>: rounding,
    overflow and infinities are left out. The one place where the notebooks can produce a
    not-a-number without raising (\<^verbatim>\<open>0 / 0\<close> on numpy scalars) is kept, as the value \<open>NaN\<close>
    of \<open>float64\<close>. Which training image is nearest does depend on the rounding; the two
    classifiers are therefore embedded a second time, in binary64 arithmetic, in the
    section after this one.
  \<^item> A two-dimensional \<^verbatim>\<open>ndarray\<close> is a record of its column count and its rows; the
    column count is part of the shape even when there are no rows.
  \<^item> An exception is a value \<open>Inl e\<close> of a sum type; \<open>e\<close> is the Python exception class.
  \<^item> \<^verbatim>\<open>np.random\<close>'s hidden generator state is an explicit argument and result.
\<close>

subsection \<open>Data\<close>

datatype error = ValueError | IndexError | ZeroDivisionError

record mat =
  ncols :: nat
  rows :: "real list list"

text \<open>The shape invariant of a two-dimensional array: every row has \<open>ncols\<close> entries.\<close>

definition wf_mat :: "mat \<Rightarrow> bool" where
  "wf_mat a = (\<forall>r \<in> set (rows a). length r = ncols a)"

datatype float64 = NaN | Fin real

subsection \<open>The numpy operations the notebooks call\<close>

text \<open>
  Two axis lengths broadcast against each other when they are equal or one of them is 1.
\<close>

definition broadcastable :: "nat \<Rightarrow> nat \<Rightarrow> bool" where
  "broadcastable a b = (a = b \<or> a = 1 \<or> b = 1)"

text \<open>
  Elementwise subtraction of two one-dimensional operands whose lengths broadcast:
  an operand of length 1 is stretched along the other.
\<close>

definition sub_row :: "real list \<Rightarrow> real list \<Rightarrow> real list" where
  "sub_row v r =
     (if length v = length r then map2 (-) v r
      else if length v = 1 then map (\<lambda>x. hd v - x) r
      else map (\<lambda>y. y - hd r) v)"

text \<open>
  \<^verbatim>\<open>test_img - train_img\<close> for a vector and a matrix: the vector is broadcast along the
  rows; shapes that do not broadcast raise \<^verbatim>\<open>ValueError\<close>, whether or not there are rows.
\<close>

definition test_minus_train :: "real list \<Rightarrow> mat \<Rightarrow> error + real list list" where
  "test_minus_train test_img train_img =
     (if broadcastable (length test_img) (ncols train_img)
      then Inr (map (sub_row test_img) (rows train_img))
      else Inl ValueError)"

text \<open>\<^verbatim>\<open>np.square(row).sum()\<close> of one row.\<close>

definition square_sum :: "real list \<Rightarrow> real" where
  "square_sum r = sum_list (map (\<lambda>x. x * x) r)"

text \<open>
  \<^verbatim>\<open>argmin\<close> scans from the left and moves only on a strictly smaller entry;
  on an empty axis it raises \<^verbatim>\<open>ValueError\<close>.
  \<open>argmin_loop xs i mp mi\<close>: the entries still to scan, the index of the next one, the
  least value so far and its index.
\<close>

fun argmin_loop :: "real list \<Rightarrow> nat \<Rightarrow> real \<Rightarrow> nat \<Rightarrow> nat" where
  "argmin_loop [] i mp mi = mi"
| "argmin_loop (x # xs) i mp mi =
     (if x < mp then argmin_loop xs (Suc i) x i else argmin_loop xs (Suc i) mp mi)"

definition argmin :: "real list \<Rightarrow> error + nat" where
  "argmin xs = (case xs of [] \<Rightarrow> Inl ValueError | x # rest \<Rightarrow> Inr (argmin_loop rest 1 x 0))"

text \<open>\<^verbatim>\<open>train_labels[index]\<close> with one index: out of range raises \<^verbatim>\<open>IndexError\<close>.\<close>

definition getitem :: "int list \<Rightarrow> nat \<Rightarrow> error + int" where
  "getitem labels i = (if i < length labels then Inr (labels ! i) else Inl IndexError)"

text \<open>\<^verbatim>\<open>train_labels[indexes]\<close> with an index array.\<close>

definition getitems :: "int list \<Rightarrow> nat list \<Rightarrow> error + int list" where
  "getitems labels indexes =
     (if \<forall>i \<in> set indexes. i < length labels then Inr (map (\<lambda>i. labels ! i) indexes)
      else Inl IndexError)"

text \<open>
  \<^verbatim>\<open>a.reshape(n, 1, l)\<close> and \<^verbatim>\<open>a.reshape(1, n, l)\<close>: the entries in row-major order, cut
  into \<open>n\<close> rows of \<open>l\<close>; a different number of entries raises \<^verbatim>\<open>ValueError\<close>. (The axis of
  length 1 only directs the broadcast and is not represented.)
\<close>

fun chunks :: "nat \<Rightarrow> nat \<Rightarrow> 'a list \<Rightarrow> 'a list list" where
  "chunks 0 l xs = []"
| "chunks (Suc n) l xs = take l xs # chunks n l (drop l xs)"

definition reshape :: "nat \<Rightarrow> nat \<Rightarrow> mat \<Rightarrow> error + real list list" where
  "reshape n l a =
     (let flat = concat (rows a)
      in if length flat = n * l then Inr (chunks n l flat) else Inl ValueError)"

text \<open>
  \<^verbatim>\<open>DM.argmin(axis = 0)\<close> of a matrix given by its rows, with \<open>m\<close> columns: one index per
  column; no rows raises \<^verbatim>\<open>ValueError\<close>, whatever \<open>m\<close> is.
\<close>

definition argmin_axis0 :: "nat \<Rightarrow> real list list \<Rightarrow> error + nat list" where
  "argmin_axis0 m DM =
     (case DM of
        [] \<Rightarrow> Inl ValueError
      | r # rs \<Rightarrow> Inr (map (\<lambda>j. argmin_loop (map (\<lambda>row. row ! j) rs) 1 (r ! j) 0) [0..<m]))"

text \<open>
  \<^verbatim>\<open>.astype(int)\<close> truncates towards zero, to a 64-bit signed integer. A value whose
  integer part is not in the range of \<^verbatim>\<open>int64\<close> is converted to the least \<^verbatim>\<open>int64\<close>: this
  is the result of the conversion instruction of x86-64, to which numpy leaves the cast.
\<close>

definition astype_int :: "real \<Rightarrow> int" where
  "astype_int x =
     (let t = (if 0 \<le> x then \<lfloor>x\<rfloor> else \<lceil>x\<rceil>)
      in if - (2 ^ 63) \<le> t \<and> t < 2 ^ 63 then t else - (2 ^ 63))"

subsection \<open>The random generator\<close>

text \<open>
  The generator state is the sequence of permutations it is going to produce:
  \<^verbatim>\<open>np.random.choice(a, n, replace = False)\<close> takes the first \<open>n\<close> entries of
  \<^verbatim>\<open>permutation(a)\<close>. That each \<open>g i\<close> is a permutation of \<open>[0..<a]\<close> is numpy's promise;
  it is a hypothesis of the theorems (\<open>rng_ok\<close>), not of the definitions.
\<close>

type_synonym rng = "nat \<Rightarrow> nat list"

definition rng_ok :: "rng \<Rightarrow> nat \<Rightarrow> bool" where
  "rng_ok g a = (\<forall>i. distinct (g i) \<and> set (g i) = {..<a})"

definition advance :: "nat \<Rightarrow> rng \<Rightarrow> rng" where
  "advance k g = (\<lambda>i. g (i + k))"

text \<open>
  \<^verbatim>\<open>choice\<close>, as current numpy has it, raises \<^verbatim>\<open>ValueError\<close> for an empty population unless
  no sample is taken, for a sample larger than the population and for a negative size,
  in this order; a sample of size 0 from a population that is not empty is the empty array.
\<close>

definition choice :: "rng \<Rightarrow> int \<Rightarrow> int \<Rightarrow> error + (nat list \<times> rng)" where
  "choice g pop_size n =
     (if pop_size = 0 \<and> n \<noteq> 0 then Inl ValueError
      else if n > pop_size then Inl ValueError
      else if n < 0 then Inl ValueError
      else Inr (take (nat n) (g 0), advance 1 g))"

subsection \<open>\<^verbatim>\<open>get_random_subset\<close>\<close>

text \<open>
  \<^verbatim>\<open>data[indexes, 0]\<close> raises \<^verbatim>\<open>IndexError\<close> when \<open>data\<close> has no column 0 or an index is
  not a row of \<open>data\<close>; \<^verbatim>\<open>data[indexes, 1:]\<close> keeps the remaining columns of the same rows.
\<close>

definition get_random_subset :: "rng \<Rightarrow> mat \<Rightarrow> int \<Rightarrow> error + ((int list \<times> mat) \<times> rng)" where
  "get_random_subset g data new_size =
     (let old_size = length (rows data)
      in (case choice g (int old_size) new_size of
            Inl e \<Rightarrow> Inl e
          | Inr (indexes, g') \<Rightarrow>
              (if ncols data = 0 \<or> (\<exists>i \<in> set indexes. old_size \<le> i) then Inl IndexError
               else
                 (let labels = map (\<lambda>i. astype_int (hd (rows data ! i))) indexes;
                      images = \<lparr>ncols = ncols data - 1,
                                rows = map (\<lambda>i. tl (rows data ! i)) indexes\<rparr>
                  in Inr ((labels, images), g')))))"

subsection \<open>\<^verbatim>\<open>classify_image\<close>: one query against the whole training subset\<close>

text \<open>
  The three lines of the function, one definition each: the distance vector \<open>DM\<close>, the
  position \<open>index\<close> of its least entry, the label at that position.
\<close>

definition classify_image_DM :: "real list \<Rightarrow> mat \<Rightarrow> error + real list" where
  "classify_image_DM test_img train_img =
     (case test_minus_train test_img train_img of
        Inl e \<Rightarrow> Inl e
      | Inr D \<Rightarrow> Inr (map square_sum D))"

definition classify_image_index :: "real list \<Rightarrow> mat \<Rightarrow> error + nat" where
  "classify_image_index test_img train_img =
     (case classify_image_DM test_img train_img of
        Inl e \<Rightarrow> Inl e
      | Inr DM \<Rightarrow> argmin DM)"

definition classify_image :: "real list \<Rightarrow> mat \<Rightarrow> int list \<Rightarrow> error + int" where
  "classify_image test_img train_img train_labels =
     (case classify_image_index test_img train_img of
        Inl e \<Rightarrow> Inl e
      | Inr index \<Rightarrow> getitem train_labels index)"

text \<open>
  \<^verbatim>\<open>[classify_image(test, train_img, train_labels) for test in test_img]\<close>: the queries
  in order; the first exception ends the comprehension.
\<close>

fun classify_each :: "real list list \<Rightarrow> mat \<Rightarrow> int list \<Rightarrow> error + int list" where
  "classify_each [] train_img train_labels = Inr []"
| "classify_each (test # rest) train_img train_labels =
     (case classify_image test train_img train_labels of
        Inl e \<Rightarrow> Inl e
      | Inr l \<Rightarrow>
          (case classify_each rest train_img train_labels of
             Inl e \<Rightarrow> Inl e
           | Inr ls \<Rightarrow> Inr (l # ls)))"

definition predicted_results :: "mat \<Rightarrow> mat \<Rightarrow> int list \<Rightarrow> error + int list" where
  "predicted_results test_img train_img train_labels =
     classify_each (rows test_img) train_img train_labels"

subsection \<open>\<^verbatim>\<open>classify_images\<close>: the whole distance matrix at once\<close>

text \<open>
  \<open>IMAGE_LENGTH\<close> is a global of the notebook. \<open>Tr\<close> has shape \<open>(N_train, 1, L)\<close> and \<open>Te\<close>
  shape \<open>(1, N_test, L)\<close>, so \<open>Te - Tr\<close> always broadcasts, to \<open>(N_train, N_test, L)\<close>, and
  \<open>DM\<close> has one row per training image and one column per test image. The two counts are
  taken as naturals.
\<close>

definition classify_images ::
  "nat \<Rightarrow> mat \<Rightarrow> int list \<Rightarrow> mat \<Rightarrow> nat \<Rightarrow> nat \<Rightarrow> error + int list" where
  "classify_images IMAGE_LENGTH train_img train_labels test_img N_train N_test =
     (case reshape N_train IMAGE_LENGTH train_img of
        Inl e \<Rightarrow> Inl e
      | Inr Tr \<Rightarrow>
          (case reshape N_test IMAGE_LENGTH test_img of
             Inl e \<Rightarrow> Inl e
           | Inr Te \<Rightarrow>
               (let DM = map (\<lambda>tr. map (\<lambda>te. square_sum (map2 (-) te tr)) Te) Tr
                in (case argmin_axis0 N_test DM of
                      Inl e \<Rightarrow> Inl e
                    | Inr indexes \<Rightarrow> getitems train_labels indexes))))"

subsection \<open>\<^verbatim>\<open>get_average_accuracy\<close> and \<^verbatim>\<open>accuracy_info\<close>\<close>

text \<open>
  \<^verbatim>\<open>(predicted_results == test_labels).sum()\<close>: an elementwise comparison of two
  one-dimensional operands, broadcast like any other (lengths that do not broadcast raise
  \<^verbatim>\<open>ValueError\<close> in current numpy), then the number of \<open>True\<close>s.
\<close>

definition success_count :: "int list \<Rightarrow> int list \<Rightarrow> error + nat" where
  "success_count predicted test_labels =
     (if \<not> broadcastable (length predicted) (length test_labels) then Inl ValueError
      else if length predicted = length test_labels
        then Inr (length (filter (\<lambda>(p, t). p = t) (zip predicted test_labels)))
      else if length predicted = 1
        then Inr (length (filter (\<lambda>t. hd predicted = t) test_labels))
      else Inr (length (filter (\<lambda>p. p = hd test_labels) predicted)))"

text \<open>
  \<^verbatim>\<open>success_count / test_labels.shape[0]\<close>: the count is a numpy integer, so a zero
  divisor gives a not-a-number (the count is then 0 as well) and no exception.
\<close>

definition true_divide :: "nat \<Rightarrow> nat \<Rightarrow> float64" where
  "true_divide c n = (if n = 0 then NaN else Fin (real c / real n))"

fun fadd :: "float64 \<Rightarrow> float64 \<Rightarrow> float64" where
  "fadd (Fin a) (Fin b) = Fin (a + b)"
| "fadd _ _ = NaN"

fun fdiv_int :: "float64 \<Rightarrow> int \<Rightarrow> float64" where
  "fdiv_int (Fin a) k = Fin (a / of_int k)"
| "fdiv_int NaN k = NaN"

text \<open>
  One pass of the \<^verbatim>\<open>for\<close> loop of \<^verbatim>\<open>get_average_accuracy\<close>: the accuracy of one random
  training subset. \<open>test_labels\<close> is a global of the notebook.
\<close>

definition iteration_accuracy ::
  "rng \<Rightarrow> mat \<Rightarrow> int list \<Rightarrow> mat \<Rightarrow> int \<Rightarrow> error + (float64 \<times> rng)" where
  "iteration_accuracy g test_img test_labels train_data train_subset_size =
     (case get_random_subset g train_data train_subset_size of
        Inl e \<Rightarrow> Inl e
      | Inr ((train_labels, train_img), g') \<Rightarrow>
          (case predicted_results test_img train_img train_labels of
             Inl e \<Rightarrow> Inl e
           | Inr predicted \<Rightarrow>
               (case success_count predicted test_labels of
                  Inl e \<Rightarrow> Inl e
                | Inr c \<Rightarrow> Inr (true_divide c (length test_labels), g'))))"

text \<open>The loop: \<open>n\<close> passes left, the generator and \<open>total_accuracy\<close> so far.\<close>

fun accuracy_loop ::
  "nat \<Rightarrow> rng \<Rightarrow> float64 \<Rightarrow> mat \<Rightarrow> int list \<Rightarrow> mat \<Rightarrow> int \<Rightarrow> error + (float64 \<times> rng)" where
  "accuracy_loop 0 g total_accuracy test_img test_labels train_data train_subset_size =
     Inr (total_accuracy, g)"
| "accuracy_loop (Suc n) g total_accuracy test_img test_labels train_data train_subset_size =
     (case iteration_accuracy g test_img test_labels train_data train_subset_size of
        Inl e \<Rightarrow> Inl e
      | Inr (a, g') \<Rightarrow>
          accuracy_loop n g' (fadd total_accuracy a) test_img test_labels train_data train_subset_size)"

text \<open>
  \<^verbatim>\<open>range(iterations_count)\<close> is empty for a count below 1. After no pass
  \<open>total_accuracy\<close> is still the Python integer 0, and dividing it by the integer 0
  raises \<^verbatim>\<open>ZeroDivisionError\<close>.
\<close>

definition get_average_accuracy ::
  "rng \<Rightarrow> mat \<Rightarrow> int list \<Rightarrow> mat \<Rightarrow> int \<Rightarrow> int \<Rightarrow> error + (float64 \<times> rng)" where
  "get_average_accuracy g test_img test_labels train_data train_subset_size iterations_count =
     (case accuracy_loop (nat iterations_count) g (Fin 0)
             test_img test_labels train_data train_subset_size of
        Inl e \<Rightarrow> Inl e
      | Inr (total_accuracy, g') \<Rightarrow>
          (if iterations_count = 0 then Inl ZeroDivisionError
           else Inr (fdiv_int total_accuracy iterations_count, g')))"

text \<open>
  \<^verbatim>\<open>accuracy_info\<close>: the comprehension over \<^verbatim>\<open>zip(size_of_subset_v, count_of_iters_v)\<close>.
\<close>

fun accuracy_each ::
  "rng \<Rightarrow> mat \<Rightarrow> int list \<Rightarrow> mat \<Rightarrow> (int \<times> int) list \<Rightarrow> error + (float64 list \<times> rng)" where
  "accuracy_each g test_img test_labels train_data [] = Inr ([], g)"
| "accuracy_each g test_img test_labels train_data ((n, iters) # rest) =
     (case get_average_accuracy g test_img test_labels train_data n iters of
        Inl e \<Rightarrow> Inl e
      | Inr (a, g') \<Rightarrow>
          (case accuracy_each g' test_img test_labels train_data rest of
             Inl e \<Rightarrow> Inl e
           | Inr (as, g'') \<Rightarrow> Inr (a # as, g'')))"

definition accuracy_info ::
  "rng \<Rightarrow> mat \<Rightarrow> int list \<Rightarrow> mat \<Rightarrow> int list \<Rightarrow> int list \<Rightarrow> error + (float64 list \<times> rng)" where
  "accuracy_info g test_img test_labels train_data size_of_subset_v count_of_iters_v =
     accuracy_each g test_img test_labels train_data (zip size_of_subset_v count_of_iters_v)"

section \<open>The two classifiers in binary64 arithmetic\<close>

text \<open>
  The distances that \<^verbatim>\<open>classify_image\<close> and \<^verbatim>\<open>classify_images\<close> compare are \<^verbatim>\<open>float64\<close>
  values, and which of two training images is nearer can depend on the rounding of a
  square or of a sum. This section embeds the two classifiers a second time, with every
  arithmetic operation rounded as IEEE 754 binary64 rounds it (to nearest, ties to even),
  with overflow to an infinity and with not-a-number. The names are those of the first
  embedding with the suffix \<open>64\<close>; labels, indices and exceptions are as before.
\<close>

subsection \<open>binary64 values and rounding\<close>








subsection \<open>The arithmetic of the distance computation\<close>












subsection \<open>Arrays of \<^verbatim>\<open>float64\<close> and the two classifiers\<close>












subsection \<open>Data on which the arithmetic is exact\<close>





section \<open>Notions of the specification\<close>

text \<open>
  The squared Euclidean distance as the specification writes it,
  \<open>d = sum_j (q_j - r_j)^2\<close>, over the positions of the query.
\<close>

definition sq_dist :: "real list \<Rightarrow> real list \<Rightarrow> real" where
  "sq_dist q r = (\<Sum>j < length q. (q ! j - r ! j)\<^sup>2)"

text \<open>
  The accuracy as the specification writes it: the number of predictions that match the
  true label, divided by the number of queries. The mean is the arithmetic mean.
\<close>

definition accuracy :: "int list \<Rightarrow> int list \<Rightarrow> real" where
  "accuracy predicted truth =
     real (length (filter (\<lambda>j. predicted ! j = truth ! j) [0..<length truth]))
       / real (length truth)"

definition mean :: "real list \<Rightarrow> real" where
  "mean xs = sum_list xs / real (length xs)"

section \<open>Auxiliary notions of the proofs\<close>

text \<open>
  \<open>first_min xs k\<close>: position \<open>k\<close> holds a least entry of \<open>xs\<close> and every earlier entry is
  strictly greater.
\<close>

definition first_min :: "real list \<Rightarrow> nat \<Rightarrow> bool" where
  "first_min xs k =
     (k < length xs \<and> (\<forall>j < length xs. xs ! k \<le> xs ! j) \<and> (\<forall>j < k. xs ! k < xs ! j))"

text \<open>
  The position \<^verbatim>\<open>argmin\<close> computes for the distances from \<open>q\<close> to the rows \<open>trs\<close>, when there
  is at least one row and the lengths agree; both classifiers are compared with it.
\<close>

definition nearest_index :: "real list \<Rightarrow> real list list \<Rightarrow> nat" where
  "nearest_index q trs =
     argmin_loop (map (\<lambda>r. square_sum (map2 (-) q r)) (tl trs)) 1
       (square_sum (map2 (-) q (hd trs))) 0"

text \<open>
  \<open>drawn_accuracy g \<dots> n a\<close>: \<open>a\<close> is the accuracy of the predictions against the random
  subset of \<open>n\<close> rows that the generator \<open>g\<close> draws next. \<open>curve_point g \<dots> n k p\<close>: \<open>p\<close> is
  the mean of the accuracies of the next \<open>k\<close> draws of \<open>g\<close> and lies between 0 and 1.
\<close>

definition drawn_accuracy :: "rng \<Rightarrow> mat \<Rightarrow> int list \<Rightarrow> mat \<Rightarrow> int \<Rightarrow> real \<Rightarrow> bool" where
  "drawn_accuracy g test_img test_labels train_data n a =
     (\<exists>labels images ps.
        get_random_subset g train_data n = Inr ((labels, images), advance 1 g)
        \<and> predicted_results test_img images labels = Inr ps
        \<and> length ps = length test_labels
        \<and> a = accuracy ps test_labels)"

definition curve_point ::
  "rng \<Rightarrow> mat \<Rightarrow> int list \<Rightarrow> mat \<Rightarrow> int \<Rightarrow> int \<Rightarrow> float64 \<Rightarrow> bool" where
  "curve_point g test_img test_labels train_data n k p =
     (\<exists>accs. length accs = nat k \<and> p = Fin (mean accs) \<and> 0 \<le> mean accs \<and> mean accs \<le> 1
        \<and> (\<forall>i < nat k.
              drawn_accuracy (advance i g) test_img test_labels train_data n (accs ! i)))"

section \<open>Example data\<close>

text \<open>
  The end-to-end scenario of the specification: four reference points with labels
  \<open>[0, 0, 1, 1]\<close> and the two queries \<open>(0, 0.4)\<close> and \<open>(5, 5.4)\<close>.
\<close>

definition example_pool :: mat where
  "example_pool = \<lparr>ncols = 2, rows = [[0, 0], [0, 1], [5, 5], [5, 6]]\<rparr>"

definition example_labels :: "int list" where
  "example_labels = [0, 0, 1, 1]"

definition example_queries :: mat where
  "example_queries = \<lparr>ncols = 2, rows = [[0, 4 / 10], [5, 54 / 10]]\<rparr>"












text \<open>
  A data set of three rows (label, then two features) and a generator that alternates
  between two permutations of its three row indices.
\<close>

definition example_data :: mat where
  "example_data = \<lparr>ncols = 3, rows = [[7, 1, 2], [3, 4, 5], [9, 6, 8]]\<rparr>"

definition example_rng :: rng where
  "example_rng = (\<lambda>i. if even i then [2, 0, 1] else [1, 2, 0])"

text \<open>
  A training pool of four rows (the scenario's points with their labels in column 0), the
  true labels of the two queries, and a generator for four row indices.
\<close>

definition example_train :: mat where
  "example_train = \<lparr>ncols = 3, rows = [[0, 0, 0], [0, 0, 1], [1, 5, 5], [1, 5, 6]]\<rparr>"

definition example_test_labels :: "int list" where
  "example_test_labels = [0, 1]"

definition example_rng4 :: rng where
  "example_rng4 = (\<lambda>i. if even i then [2, 0, 1, 3] else [0, 1, 3, 2])"

section \<open>Lemmas\<close>

subsection \<open>\<^verbatim>\<open>argmin\<close> and \<^verbatim>\<open>reshape\<close>\<close>

lemma first_min_unique: "first_min xs k \<Longrightarrow> first_min xs k' \<Longrightarrow> k = k'"
  unfolding first_min_def by (metis linorder_neqE_nat not_le)

lemma argmin_loop_first_min:
  assumes "i = length pre" and "mi < i" and "pre ! mi = mp"
    and "\<forall>j < i. mp \<le> pre ! j" and "\<forall>j < mi. mp < pre ! j"
  shows "first_min (pre @ xs) (argmin_loop xs i mp mi)"
  using assms
proof (induction xs arbitrary: pre i mp mi)
  case Nil
  then show ?case by (simp add: first_min_def)
next
  case (Cons x xs)
  show ?case
  proof (cases "x < mp")
    case True
    have "first_min ((pre @ [x]) @ xs) (argmin_loop xs (Suc i) x i)"
    proof (rule Cons.IH)
      show "Suc i = length (pre @ [x])" using Cons.prems by simp
      show "i < Suc i" by simp
      show "(pre @ [x]) ! i = x" using Cons.prems by simp
      show "\<forall>j<Suc i. x \<le> (pre @ [x]) ! j"
      proof (intro allI impI)
        fix j assume "j < Suc i"
        show "x \<le> (pre @ [x]) ! j"
        proof (cases "j < i")
          case True
          then have "mp \<le> pre ! j" using Cons.prems by simp
          with \<open>x < mp\<close> have "x \<le> pre ! j" by linarith
          with True Cons.prems(1) show ?thesis by (simp add: nth_append)
        next
          case False
          with \<open>j < Suc i\<close> Cons.prems show ?thesis by (simp add: nth_append)
        qed
      qed
      show "\<forall>j<i. x < (pre @ [x]) ! j"
      proof (intro allI impI)
        fix j assume "j < i"
        then have "mp \<le> pre ! j" using Cons.prems by simp
        with \<open>x < mp\<close> have "x < pre ! j" by linarith
        with \<open>j < i\<close> Cons.prems(1) show "x < (pre @ [x]) ! j"
          by (simp add: nth_append)
      qed
    qed
    with True show ?thesis by simp
  next
    case False
    have "first_min ((pre @ [x]) @ xs) (argmin_loop xs (Suc i) mp mi)"
    proof (rule Cons.IH)
      show "Suc i = length (pre @ [x])" using Cons.prems by simp
      show "mi < Suc i" using Cons.prems by simp
      show "(pre @ [x]) ! mi = mp" using Cons.prems by (simp add: nth_append)
      show "\<forall>j<Suc i. mp \<le> (pre @ [x]) ! j"
        using Cons.prems False by (auto simp: nth_append less_Suc_eq)
      show "\<forall>j<mi. mp < (pre @ [x]) ! j"
        using Cons.prems by (auto simp: nth_append)
    qed
    with False show ?thesis by simp
  qed
qed

lemma argmin_loop_Cons: "first_min (x # xs) (argmin_loop xs 1 x 0)"
  using argmin_loop_first_min [of 1 "[x]" 0 x xs] by simp


lemma argmin_Nil: "argmin [] = Inl ValueError"
  by (simp add: argmin_def)

lemma chunks_concat:
  "\<forall>r \<in> set rs. length r = l \<Longrightarrow> chunks (length rs) l (concat rs) = rs"
  by (induction rs) auto

lemma length_concat_rows:
  "\<forall>r \<in> set rs. length r = l \<Longrightarrow> length (concat rs) = length rs * l"
  by (induction rs) auto

lemma reshape_rows:
  "wf_mat a \<Longrightarrow> reshape (length (rows a)) (ncols a) a = Inr (rows a)"
  by (simp add: reshape_def wf_mat_def Let_def chunks_concat length_concat_rows)

subsection \<open>Both classifiers return the label at \<open>nearest_index\<close>\<close>

lemma square_sum_map2:
  assumes "length q = length r"
  shows "square_sum (map2 (-) q r) = sq_dist q r"
proof -
  have "square_sum (map2 (-) q r) = (\<Sum>j = 0..<length q. (q ! j - r ! j) * (q ! j - r ! j))"
    using assms by (simp add: square_sum_def sum_list_sum_nth)
  then show ?thesis
    by (simp add: sq_dist_def power2_eq_square atLeast0LessThan)
qed

lemma sub_row_same: "length q = length r \<Longrightarrow> sub_row q r = map2 (-) q r"
  by (simp add: sub_row_def)

lemma nearest_index_first_min:
  assumes "trs \<noteq> []" and "\<forall>r \<in> set trs. length r = length q"
  shows "first_min (map (sq_dist q) trs) (nearest_index q trs)"
proof -
  obtain t ts where trs: "trs = t # ts" using assms(1) by (cases trs) auto
  have eq: "map (\<lambda>r. square_sum (map2 (-) q r)) trs = map (sq_dist q) trs"
    using assms(2) by (simp add: square_sum_map2)
  have "first_min (map (\<lambda>r. square_sum (map2 (-) q r)) trs) (nearest_index q trs)"
    using argmin_loop_Cons [of "square_sum (map2 (-) q t)" "map (\<lambda>r. square_sum (map2 (-) q r)) ts"]
    by (simp add: trs nearest_index_def)
  then show ?thesis unfolding eq .
qed

lemma classify_image_nearest:
  assumes "wf_mat train_img" and "length q = ncols train_img" and "rows train_img \<noteq> []"
  shows "classify_image q train_img train_labels
           = getitem train_labels (nearest_index q (rows train_img))"
proof -
  obtain t ts where trs: "rows train_img = t # ts" using assms(3) by (cases "rows train_img") auto
  have "map (sub_row q) (rows train_img) = map (map2 (-) q) (rows train_img)"
    using assms(1,2) by (simp add: wf_mat_def sub_row_same)
  then have D: "test_minus_train q train_img = Inr (map (map2 (-) q) (t # ts))"
    using assms(2) by (simp add: test_minus_train_def broadcastable_def trs)
  show ?thesis
    by (simp add: classify_image_def classify_image_index_def classify_image_DM_def D
        argmin_def nearest_index_def trs o_def)
qed

lemma classify_image_empty:
  assumes "rows train_img = []"
  shows "classify_image q train_img train_labels = Inl ValueError"
  using assms
  by (simp add: classify_image_def classify_image_index_def classify_image_DM_def
      test_minus_train_def argmin_def)

lemma classify_each_getitems:
  assumes "\<forall>q \<in> set qs. classify_image q train_img train_labels = getitem train_labels (h q)"
  shows "classify_each qs train_img train_labels = getitems train_labels (map h qs)"
  using assms
proof (induction qs)
  case Nil
  then show ?case by (simp add: getitems_def)
next
  case (Cons q qs)
  then have IH: "classify_each qs train_img train_labels = getitems train_labels (map h qs)"
    by simp
  have hd: "classify_image q train_img train_labels = getitem train_labels (h q)"
    using Cons.prems by simp
  show ?case
    by (simp add: IH hd getitem_def getitems_def)
qed

lemma predicted_results_nearest:
  assumes "wf_mat train_img" and "wf_mat test_img" and "ncols test_img = ncols train_img"
    and "rows train_img \<noteq> []"
  shows "predicted_results test_img train_img train_labels
           = getitems train_labels (map (\<lambda>q. nearest_index q (rows train_img)) (rows test_img))"
  unfolding predicted_results_def
proof (rule classify_each_getitems, rule ballI)
  fix q assume "q \<in> set (rows test_img)"
  then have "length q = ncols train_img" using assms(2,3) by (simp add: wf_mat_def)
  then show "classify_image q train_img train_labels
               = getitem train_labels (nearest_index q (rows train_img))"
    by (rule classify_image_nearest [OF assms(1) _ assms(4)])
qed

lemma argmin_axis0_nearest:
  assumes "trs \<noteq> []"
  shows "argmin_axis0 (length tes) (map (\<lambda>tr. map (\<lambda>te. square_sum (map2 (-) te tr)) tes) trs)
           = Inr (map (\<lambda>q. nearest_index q trs) tes)"
proof -
  obtain t ts where trs: "trs = t # ts" using assms by (cases trs) auto
  let ?F = "\<lambda>tr. map (\<lambda>te. square_sum (map2 (-) te tr)) tes"
  let ?col = "\<lambda>j. argmin_loop (map (\<lambda>row. row ! j) (map ?F ts)) 1 (?F t ! j) 0"
  have col: "?col j = nearest_index (tes ! j) trs" if "j < length tes" for j
  proof -
    have "map (\<lambda>row. row ! j) (map ?F ts) = map (\<lambda>r. square_sum (map2 (-) (tes ! j) r)) ts"
      using that by simp
    moreover have "?F t ! j = square_sum (map2 (-) (tes ! j) t)"
      using that by simp
    ultimately show ?thesis
      by (simp only: nearest_index_def trs list.sel)
  qed
  have "map ?col [0..<length tes] = map (\<lambda>j. nearest_index (tes ! j) trs) [0..<length tes]"
    by (rule map_cong [OF refl], rule col, simp)
  also have "\<dots> = map (\<lambda>q. nearest_index q trs) tes"
    by (rule nth_equalityI) simp_all
  finally show ?thesis
    by (simp only: argmin_axis0_def trs list.map list.case)
qed

lemma classify_images_nearest:
  assumes "wf_mat train_img" and "wf_mat test_img" and "ncols test_img = ncols train_img"
    and "rows train_img \<noteq> []"
  shows "classify_images (ncols train_img) train_img train_labels test_img
             (length (rows train_img)) (length (rows test_img))
           = getitems train_labels (map (\<lambda>q. nearest_index q (rows train_img)) (rows test_img))"
proof -
  have Tr: "reshape (length (rows train_img)) (ncols train_img) train_img = Inr (rows train_img)"
    using assms(1) by (rule reshape_rows)
  have Te: "reshape (length (rows test_img)) (ncols train_img) test_img = Inr (rows test_img)"
    using reshape_rows [OF assms(2)] assms(3) by simp
  show ?thesis
    by (simp only: classify_images_def Tr Te sum.case Let_def argmin_axis0_nearest [OF assms(4)])
qed

lemma classify_images_empty:
  assumes "wf_mat test_img" and "ncols test_img = l" and "rows train_img = []"
  shows "classify_images l train_img train_labels test_img 0 (length (rows test_img))
           = Inl ValueError"
proof -
  have Te: "reshape (length (rows test_img)) l test_img = Inr (rows test_img)"
    using reshape_rows [OF assms(1)] assms(2) by simp
  have Tr: "reshape 0 l train_img = Inr []"
    using assms(3) by (simp add: reshape_def)
  show ?thesis
    by (simp add: classify_images_def Tr Te argmin_axis0_def)
qed

lemma classify_each_empty:
  assumes "rows train_img = []" and "qs \<noteq> []"
  shows "classify_each qs train_img train_labels = Inl ValueError"
  using assms by (cases qs) (simp_all add: classify_image_empty)

lemmas classify_defs = predicted_results_def classify_image_def classify_image_index_def
  classify_image_DM_def test_minus_train_def broadcastable_def sub_row_def square_sum_def
  argmin_def getitem_def


lemma nearest_index_less:
  assumes "trs \<noteq> []" and "\<forall>r \<in> set trs. length r = length q"
  shows "nearest_index q trs < length trs"
  using nearest_index_first_min [OF assms] by (simp add: first_min_def)

lemma getitems_in_range:
  assumes "\<forall>i \<in> set is. i < length labels"
  shows "getitems labels is = Inr (map (\<lambda>i. labels ! i) is)"
  using assms by (simp add: getitems_def)

lemma predictions_nearest:
  assumes "wf_mat train_img" and "wf_mat test_img" and "ncols test_img = ncols train_img"
    and "rows train_img \<noteq> []" and "length train_labels = length (rows train_img)"
  shows "predicted_results test_img train_img train_labels
           = Inr (map (\<lambda>q. train_labels ! nearest_index q (rows train_img)) (rows test_img))"
    and "classify_images (ncols train_img) train_img train_labels test_img
             (length (rows train_img)) (length (rows test_img))
           = Inr (map (\<lambda>q. train_labels ! nearest_index q (rows train_img)) (rows test_img))"
proof -
  have "\<forall>i \<in> set (map (\<lambda>q. nearest_index q (rows train_img)) (rows test_img)).
          i < length train_labels"
  proof
    fix i assume "i \<in> set (map (\<lambda>q. nearest_index q (rows train_img)) (rows test_img))"
    then obtain q where q: "q \<in> set (rows test_img)" and i: "i = nearest_index q (rows train_img)"
      by auto
    have "\<forall>r \<in> set (rows train_img). length r = length q"
      using assms(1,2,3) q by (simp add: wf_mat_def)
    then show "i < length train_labels"
      using nearest_index_less [OF assms(4)] i assms(5) by simp
  qed
  then have G: "getitems train_labels (map (\<lambda>q. nearest_index q (rows train_img)) (rows test_img))
      = Inr (map (\<lambda>q. train_labels ! nearest_index q (rows train_img)) (rows test_img))"
    by (simp add: getitems_in_range o_def)
  show "predicted_results test_img train_img train_labels
           = Inr (map (\<lambda>q. train_labels ! nearest_index q (rows train_img)) (rows test_img))"
    using predicted_results_nearest [OF assms(1-4)] G by simp
  show "classify_images (ncols train_img) train_img train_labels test_img
             (length (rows train_img)) (length (rows test_img))
           = Inr (map (\<lambda>q. train_labels ! nearest_index q (rows train_img)) (rows test_img))"
    using classify_images_nearest [OF assms(1-4)] G by simp
qed





subsection \<open>The generator and \<^verbatim>\<open>get_random_subset\<close>\<close>

lemma rng_ok_example: "rng_ok example_rng (length (rows example_data))"
  by (auto simp: rng_ok_def example_rng_def example_data_def lessThan_Suc)

lemma wf_example_data: "wf_mat example_data"
  by (simp add: example_data_def wf_mat_def)

lemma ncols_example_data: "0 < ncols example_data"
  by (simp add: example_data_def)

lemma rng_ok_advance: "rng_ok g a \<Longrightarrow> rng_ok (advance k g) a"
  by (simp add: rng_ok_def advance_def)

lemma advance_advance: "advance j (advance k g) = advance (j + k) g"
  by (simp add: advance_def add.assoc)

lemma permutation_length:
  assumes "distinct p" and "set p = {..<a}"
  shows "length p = a"
  using assms by (metis card_lessThan distinct_card)

lemma choice_in_range:
  assumes "0 \<le> n" and "n \<le> int a"
  shows "choice g (int a) n = Inr (take (nat n) (g 0), advance 1 g)"
  using assms by (auto simp: choice_def)

lemma choice_out_of_range:
  assumes "n < 0 \<or> int a < n"
  shows "choice g (int a) n = Inl ValueError"
  using assms by (auto simp: choice_def)

lemma get_random_subset_in_range:
  assumes "0 < ncols data" and "rng_ok g (length (rows data))"
    and "0 \<le> n" and "n \<le> int (length (rows data))"
  shows "get_random_subset g data n =
           Inr ((map (\<lambda>i. astype_int (hd (rows data ! i))) (take (nat n) (g 0)),
                 \<lparr>ncols = ncols data - 1,
                  rows = map (\<lambda>i. tl (rows data ! i)) (take (nat n) (g 0))\<rparr>),
                advance 1 g)"
proof -
  have "set (take (nat n) (g 0)) \<subseteq> {..<length (rows data)}"
    using assms(2) set_take_subset [of "nat n" "g 0"] by (auto simp: rng_ok_def)
  then have "\<not> (\<exists>i \<in> set (take (nat n) (g 0)). length (rows data) \<le> i)"
    by auto
  then show ?thesis
    using assms(1) choice_in_range [OF assms(3,4)]
    by (simp add: get_random_subset_def Let_def)
qed

lemma get_random_subset_out_of_range:
  assumes "n < 0 \<or> int (length (rows data)) < n"
  shows "get_random_subset g data n = Inl ValueError"
  using choice_out_of_range [OF assms] by (simp add: get_random_subset_def Let_def)

lemma astype_int_of_int:
  "- (2 ^ 63) \<le> v \<Longrightarrow> v < 2 ^ 63 \<Longrightarrow> astype_int (of_int v) = v"
  by (simp add: astype_int_def)

subsection \<open>One pass, the loop and the schedule\<close>

lemma zip_count_matches:
  assumes "length xs = length ys"
  shows "length (filter (\<lambda>(p, t). p = t) (zip xs ys))
           = length (filter (\<lambda>j. xs ! j = ys ! j) [0..<length ys])"
proof -
  have "zip xs ys = map (\<lambda>j. (xs ! j, ys ! j)) [0..<length ys]"
    using assms by (intro nth_equalityI) simp_all
  then have "filter (\<lambda>(p, t). p = t) (zip xs ys)
               = map (\<lambda>j. (xs ! j, ys ! j)) (filter (\<lambda>j. xs ! j = ys ! j) [0..<length ys])"
    by (simp add: filter_map o_def)
  then show ?thesis by simp
qed

lemma success_count_same_length:
  assumes "length ps = length ts"
  shows "success_count ps ts
           = Inr (length (filter (\<lambda>j. ps ! j = ts ! j) [0..<length ts]))"
  using assms zip_count_matches [OF assms] by (simp add: success_count_def broadcastable_def)

lemma accuracy_bounds:
  assumes "truth \<noteq> []"
  shows "0 \<le> accuracy ps truth" and "accuracy ps truth \<le> 1"
proof -
  have "length (filter (\<lambda>j. ps ! j = truth ! j) [0..<length truth]) \<le> length truth"
    using length_filter_le [of "\<lambda>j. ps ! j = truth ! j" "[0..<length truth]"] by simp
  then show "accuracy ps truth \<le> 1" using assms by (simp add: accuracy_def)
  show "0 \<le> accuracy ps truth" by (simp add: accuracy_def)
qed

lemma iteration_accuracy_value:
  assumes "wf_mat train_data" and "wf_mat test_img"
    and "ncols train_data = Suc (ncols test_img)"
    and "length test_labels = length (rows test_img)" and "rows test_img \<noteq> []"
    and "rng_ok g (length (rows train_data))"
    and "0 < n" and "n \<le> int (length (rows train_data))"
  shows "\<exists>labels images ps.
           get_random_subset g train_data n = Inr ((labels, images), advance 1 g)
           \<and> predicted_results test_img images labels = Inr ps
           \<and> length ps = length test_labels
           \<and> iteration_accuracy g test_img test_labels train_data n
               = Inr (Fin (accuracy ps test_labels), advance 1 g)"
proof -
  let ?idx = "take (nat n) (g 0)"
  let ?labels = "map (\<lambda>i. astype_int (hd (rows train_data ! i))) ?idx"
  let ?images = "\<lparr>ncols = ncols train_data - 1, rows = map (\<lambda>i. tl (rows train_data ! i)) ?idx\<rparr>"
  let ?ps = "map (\<lambda>q. ?labels ! nearest_index q (rows ?images)) (rows test_img)"
  have perm: "distinct (g 0)" "set (g 0) = {..<length (rows train_data)}"
    using assms(6) by (simp_all add: rng_ok_def)
  have len_g: "length (g 0) = length (rows train_data)"
    using perm by (rule permutation_length)
  have sub: "set ?idx \<subseteq> {..<length (rows train_data)}"
    using perm(2) set_take_subset [of "nat n" "g 0"] by simp
  have sample: "get_random_subset g train_data n = Inr ((?labels, ?images), advance 1 g)"
    using get_random_subset_in_range [OF _ assms(6) _ assms(8)] assms(3,7) by simp
  have wf: "wf_mat ?images"
    unfolding wf_mat_def
  proof
    fix r assume "r \<in> set (rows ?images)"
    then obtain i where i: "i \<in> set ?idx" and r: "r = tl (rows train_data ! i)" by auto
    have "i < length (rows train_data)" using i sub by auto
    then have "length (rows train_data ! i) = ncols train_data"
      using assms(1) by (simp add: wf_mat_def)
    then show "length r = ncols ?images" using r by simp
  qed
  have cols: "ncols test_img = ncols ?images" using assms(3) by simp
  have "?idx \<noteq> []" using len_g assms(7,8) by auto
  then have ne: "rows ?images \<noteq> []" by simp
  have lab: "length ?labels = length (rows ?images)" by simp
  have pred: "predicted_results test_img ?images ?labels = Inr ?ps"
    using predictions_nearest(1) [OF wf assms(2) cols ne lab] .
  have len_ps: "length ?ps = length test_labels" using assms(4) by simp
  have count: "success_count ?ps test_labels
      = Inr (length (filter (\<lambda>j. ?ps ! j = test_labels ! j) [0..<length test_labels]))"
    using len_ps by (rule success_count_same_length)
  have "length test_labels \<noteq> 0" using assms(4,5) by simp
  then have "iteration_accuracy g test_img test_labels train_data n
               = Inr (Fin (accuracy ?ps test_labels), advance 1 g)"
    by (simp only: iteration_accuracy_def sample pred count sum.case prod.case
        true_divide_def accuracy_def if_False)
  with sample pred len_ps show ?thesis by blast
qed


lemma advance_0: "advance 0 g = g"
  by (simp add: advance_def)

lemma drawn_accuracy_bounds:
  assumes "drawn_accuracy g test_img test_labels train_data n a" and "test_labels \<noteq> []"
  shows "0 \<le> a \<and> a \<le> 1"
  using assms accuracy_bounds [of test_labels] unfolding drawn_accuracy_def by blast

lemma mean_bounds:
  assumes "xs \<noteq> []" and "\<forall>x \<in> set xs. 0 \<le> x \<and> x \<le> 1"
  shows "0 \<le> mean xs" and "mean xs \<le> 1"
proof -
  have lo: "0 \<le> sum_list xs" using assms(2) by (simp add: sum_list_nonneg)
  have hi: "sum_list xs \<le> real (length xs)"
    using assms(2) by (induction xs) auto
  show "0 \<le> mean xs" using lo by (simp add: mean_def)
  show "mean xs \<le> 1" using hi assms(1) by (simp add: mean_def)
qed

text \<open>What a run that returns has computed.\<close>

lemma get_random_subset_advance:
  "get_random_subset g data n = Inr (r, g') \<Longrightarrow> g' = advance 1 g"
  by (auto simp: get_random_subset_def choice_def Let_def split: if_splits sum.splits)

lemma length_classify_each:
  "classify_each qs train_img train_labels = Inr ps \<Longrightarrow> length ps = length qs"
  by (induction qs arbitrary: ps) (auto split: sum.splits)

lemma iteration_accuracy_returns:
  assumes "iteration_accuracy g test_img test_labels train_data n = Inr (a, g')"
    and "length test_labels = length (rows test_img)" and "rows test_img \<noteq> []"
  shows "g' = advance 1 g"
    and "\<exists>r. a = Fin r \<and> drawn_accuracy g test_img test_labels train_data n r"
proof -
  obtain labels images g1 ps c where
    s: "get_random_subset g train_data n = Inr ((labels, images), g1)"
    and p: "predicted_results test_img images labels = Inr ps"
    and c: "success_count ps test_labels = Inr c"
    and a: "a = true_divide c (length test_labels)" and g1: "g' = g1"
    using assms(1)
    by (auto simp: iteration_accuracy_def split: sum.splits prod.splits)
  show g': "g' = advance 1 g"
    using get_random_subset_advance [OF s] g1 by simp
  have len: "length ps = length test_labels"
    using length_classify_each p assms(2) by (simp add: predicted_results_def)
  then have "c = length (filter (\<lambda>j. ps ! j = test_labels ! j) [0..<length test_labels])"
    using c success_count_same_length [of ps test_labels] by simp
  moreover have "length test_labels \<noteq> 0" using assms(2,3) by simp
  ultimately have "a = Fin (accuracy ps test_labels)"
    using a by (simp add: true_divide_def accuracy_def)
  moreover have "drawn_accuracy g test_img test_labels train_data n (accuracy ps test_labels)"
    unfolding drawn_accuracy_def using s p len g' g1 by blast
  ultimately show "\<exists>r. a = Fin r \<and> drawn_accuracy g test_img test_labels train_data n r"
    by blast
qed

lemma accuracy_loop_returns:
  assumes "length test_labels = length (rows test_img)" and "rows test_img \<noteq> []"
    and "accuracy_loop k g (Fin t) test_img test_labels train_data n = Inr (tot, g')"
  shows "g' = advance k g
         \<and> (\<exists>accs. length accs = k \<and> tot = Fin (t + sum_list accs)
               \<and> (\<forall>i < k. drawn_accuracy (advance i g) test_img test_labels train_data n
                                (accs ! i)))"
  using assms(3)
proof (induction k arbitrary: g t)
  case 0
  then show ?case by (simp add: advance_0)
next
  case (Suc k)
  obtain a g1 where
    it: "iteration_accuracy g test_img test_labels train_data n = Inr (a, g1)"
    and loop: "accuracy_loop k g1 (fadd (Fin t) a) test_img test_labels train_data n
                 = Inr (tot, g')"
    using Suc.prems by (auto split: sum.splits prod.splits)
  have g1: "g1 = advance 1 g"
    using iteration_accuracy_returns(1) [OF it assms(1,2)] .
  obtain r where a: "a = Fin r"
    and r: "drawn_accuracy g test_img test_labels train_data n r"
    using iteration_accuracy_returns(2) [OF it assms(1,2)] by blast
  have "accuracy_loop k (advance 1 g) (Fin (t + r)) test_img test_labels train_data n
          = Inr (tot, g')"
    using loop g1 a by simp
  then have g': "g' = advance k (advance 1 g)"
    and "\<exists>accs. length accs = k \<and> tot = Fin (t + r + sum_list accs)
           \<and> (\<forall>i < k. drawn_accuracy (advance i (advance 1 g)) test_img test_labels
                            train_data n (accs ! i))"
    using Suc.IH by blast+
  then obtain accs where len: "length accs = k" and tot: "tot = Fin (t + r + sum_list accs)"
    and drawn: "\<forall>i < k. drawn_accuracy (advance (Suc i) g) test_img test_labels train_data n
                            (accs ! i)"
    by (auto simp: advance_advance)
  have "\<forall>i < Suc k. drawn_accuracy (advance i g) test_img test_labels train_data n
                        ((r # accs) ! i)"
  proof (intro allI impI)
    fix i assume "i < Suc k"
    then show "drawn_accuracy (advance i g) test_img test_labels train_data n ((r # accs) ! i)"
      using r drawn by (cases i) (simp_all add: advance_0)
  qed
  moreover have "length (r # accs) = Suc k" using len by simp
  moreover have "tot = Fin (t + sum_list (r # accs))" using tot by (simp add: add.assoc)
  moreover have "g' = advance (Suc k) g" using g' by (simp add: advance_advance)
  ultimately show ?case by blast
qed

lemma get_average_accuracy_returns:
  assumes "length test_labels = length (rows test_img)" and "rows test_img \<noteq> []"
    and "1 \<le> k"
    and "get_average_accuracy g test_img test_labels train_data n k = Inr (p, g')"
  shows "g' = advance (nat k) g" and "curve_point g test_img test_labels train_data n k p"
proof -
  obtain tot where
    loop: "accuracy_loop (nat k) g (Fin 0) test_img test_labels train_data n = Inr (tot, g')"
    and p: "p = fdiv_int tot k"
    using assms(3,4)
    by (auto simp: get_average_accuracy_def split: sum.splits prod.splits if_splits)
  obtain accs where len: "length accs = nat k" and tot: "tot = Fin (sum_list accs)"
    and drawn: "\<forall>i < nat k. drawn_accuracy (advance i g) test_img test_labels train_data n
                               (accs ! i)"
    and g': "g' = advance (nat k) g"
    using accuracy_loop_returns [OF assms(1,2) loop] by auto
  show "g' = advance (nat k) g" by (rule g')
  have ne: "accs \<noteq> []" using len assms(3) by auto
  have labels: "test_labels \<noteq> []" using assms(1,2) by auto
  have "\<forall>a \<in> set accs. 0 \<le> a \<and> a \<le> 1"
  proof
    fix a assume "a \<in> set accs"
    then obtain i where "i < nat k" and "a = accs ! i"
      using len by (metis in_set_conv_nth)
    then show "0 \<le> a \<and> a \<le> 1"
      using drawn drawn_accuracy_bounds [OF _ labels] by blast
  qed
  then have bounds: "0 \<le> mean accs" "mean accs \<le> 1"
    using mean_bounds [OF ne] by blast+
  have "real_of_int k = real (length accs)" using len assms(3) by simp
  then have "p = Fin (mean accs)" using p tot by (simp add: mean_def)
  then show "curve_point g test_img test_labels train_data n k p"
    unfolding curve_point_def using len bounds drawn by blast
qed

lemma accuracy_each_returns:
  assumes "length test_labels = length (rows test_img)" and "rows test_img \<noteq> []"
    and "\<forall>(n, k) \<in> set sched. 1 \<le> k"
    and "accuracy_each g test_img test_labels train_data sched = Inr (pts, g')"
  shows "length pts = length sched
         \<and> (\<forall>j < length sched.
               curve_point (advance (sum_list (map nat (take j (map snd sched)))) g)
                 test_img test_labels train_data (fst (sched ! j)) (snd (sched ! j)) (pts ! j))"
  using assms(3,4)
proof (induction sched arbitrary: g pts)
  case Nil
  then show ?case by simp
next
  case (Cons e rest)
  obtain n k where e: "e = (n, k)" by (cases e)
  have k: "1 \<le> k" using Cons.prems(1) e by simp
  obtain p g1 ps where
    avg: "get_average_accuracy g test_img test_labels train_data n k = Inr (p, g1)"
    and rest: "accuracy_each g1 test_img test_labels train_data rest = Inr (ps, g')"
    and pts: "pts = p # ps"
    using Cons.prems(2) e by (auto split: sum.splits prod.splits)
  have g1: "g1 = advance (nat k) g"
    and p: "curve_point g test_img test_labels train_data n k p"
    using get_average_accuracy_returns [OF assms(1,2) k avg] by blast+
  have "\<forall>(n, k) \<in> set rest. 1 \<le> k" using Cons.prems(1) by simp
  then have len: "length ps = length rest"
    and tail: "\<forall>j < length rest.
                 curve_point (advance (sum_list (map nat (take j (map snd rest)))) g1)
                   test_img test_labels train_data (fst (rest ! j)) (snd (rest ! j)) (ps ! j)"
    using Cons.IH [OF _ rest] by blast+
  have "curve_point (advance (sum_list (map nat (take j (map snd (e # rest))))) g)
          test_img test_labels train_data
          (fst ((e # rest) ! j)) (snd ((e # rest) ! j)) (pts ! j)"
    if "j < length (e # rest)" for j
  proof (cases j)
    case 0
    then show ?thesis using p e pts by (simp add: advance_0)
  next
    case (Suc j')
    then have "j' < length rest" using that by simp
    then have "curve_point (advance (sum_list (map nat (take j' (map snd rest)))) g1)
                 test_img test_labels train_data (fst (rest ! j')) (snd (rest ! j')) (ps ! j')"
      using tail by blast
    then show ?thesis using Suc e pts g1 by (simp add: advance_advance add.commute)
  qed
  then show ?case using len pts by auto
qed

text \<open>A run on well-formed input returns.\<close>

lemma accuracy_loop_total:
  assumes "wf_mat train_data" and "wf_mat test_img"
    and "ncols train_data = Suc (ncols test_img)"
    and "length test_labels = length (rows test_img)" and "rows test_img \<noteq> []"
    and "rng_ok g (length (rows train_data))"
    and "0 < n" and "n \<le> int (length (rows train_data))"
  shows "\<exists>tot g'. accuracy_loop k g t test_img test_labels train_data n = Inr (tot, g')"
  using assms(6)
proof (induction k arbitrary: g t)
  case 0
  then show ?case by simp
next
  case (Suc k)
  obtain a where it: "iteration_accuracy g test_img test_labels train_data n
                        = Inr (Fin a, advance 1 g)"
    using iteration_accuracy_value [OF assms(1-5) Suc.prems assms(7,8)] by blast
  have "rng_ok (advance 1 g) (length (rows train_data))"
    using Suc.prems by (rule rng_ok_advance)
  then have "\<exists>tot g'. accuracy_loop k (advance 1 g) (fadd t (Fin a)) test_img test_labels
                          train_data n = Inr (tot, g')"
    by (rule Suc.IH)
  then show ?case by (simp add: it)
qed

lemma get_average_accuracy_total:
  assumes "wf_mat train_data" and "wf_mat test_img"
    and "ncols train_data = Suc (ncols test_img)"
    and "length test_labels = length (rows test_img)" and "rows test_img \<noteq> []"
    and "rng_ok g (length (rows train_data))"
    and "0 < n" and "n \<le> int (length (rows train_data))" and "1 \<le> k"
  shows "\<exists>p g'. get_average_accuracy g test_img test_labels train_data n k = Inr (p, g')"
proof -
  obtain tot g' where
    "accuracy_loop (nat k) g (Fin 0) test_img test_labels train_data n = Inr (tot, g')"
    using accuracy_loop_total [OF assms(1-8)] by blast
  then show ?thesis using assms(9) by (simp add: get_average_accuracy_def)
qed

lemma accuracy_each_total:
  assumes "wf_mat train_data" and "wf_mat test_img"
    and "ncols train_data = Suc (ncols test_img)"
    and "length test_labels = length (rows test_img)" and "rows test_img \<noteq> []"
    and "rng_ok g (length (rows train_data))"
    and "\<forall>(n, k) \<in> set sched. 0 < n \<and> n \<le> int (length (rows train_data)) \<and> 1 \<le> k"
  shows "\<exists>pts g'. accuracy_each g test_img test_labels train_data sched = Inr (pts, g')"
  using assms(6,7)
proof (induction sched arbitrary: g)
  case Nil
  then show ?case by simp
next
  case (Cons e rest)
  obtain n k where e: "e = (n, k)" by (cases e)
  have nk: "0 < n" "n \<le> int (length (rows train_data))" "1 \<le> k"
    using Cons.prems(2) e by auto
  obtain p g1 where
    avg: "get_average_accuracy g test_img test_labels train_data n k = Inr (p, g1)"
    using get_average_accuracy_total [OF assms(1-5) Cons.prems(1) nk] by blast
  have "g1 = advance (nat k) g"
    using get_average_accuracy_returns(1) [OF assms(4,5) nk(3) avg] .
  then have "rng_ok g1 (length (rows train_data))"
    using Cons.prems(1) by (simp add: rng_ok_advance)
  moreover have "\<forall>(n, k) \<in> set rest. 0 < n \<and> n \<le> int (length (rows train_data)) \<and> 1 \<le> k"
    using Cons.prems(2) by simp
  ultimately obtain pts g' where
    "accuracy_each g1 test_img test_labels train_data rest = Inr (pts, g')"
    using Cons.IH by blast
  then show ?case by (simp add: e avg)
qed

lemma rng_ok_example4: "rng_ok example_rng4 (length (rows example_train))"
  by (auto simp: rng_ok_def example_rng4_def example_train_def lessThan_Suc)

lemma wf_example_train: "wf_mat example_train"
  by (simp add: example_train_def wf_mat_def)

lemma wf_example_queries: "wf_mat example_queries"
  by (simp add: example_queries_def wf_mat_def)

lemmas experiment_defs = accuracy_info_def get_average_accuracy_def iteration_accuracy_def
  get_random_subset_def choice_def advance_def success_count_def true_divide_def astype_int_def

lemma choice_error: "choice g a n = Inl e \<Longrightarrow> e = ValueError"
  by (auto simp: choice_def split: if_splits)

lemma get_random_subset_error:
  "get_random_subset g data n = Inl e \<Longrightarrow> e = ValueError \<or> e = IndexError"
  by (auto simp: get_random_subset_def Let_def split: sum.splits if_splits dest: choice_error)

lemma argmin_error: "argmin xs = Inl e \<Longrightarrow> e = ValueError"
  by (auto simp: argmin_def split: list.splits)

lemma classify_image_error:
  "classify_image q train_img train_labels = Inl e \<Longrightarrow> e = ValueError \<or> e = IndexError"
  by (auto simp: classify_image_def classify_image_index_def classify_image_DM_def
      test_minus_train_def getitem_def split: sum.splits if_splits dest: argmin_error)

lemma classify_each_error:
  "classify_each qs train_img train_labels = Inl e \<Longrightarrow> e = ValueError \<or> e = IndexError"
  by (induction qs) (auto split: sum.splits dest: classify_image_error)

lemma success_count_error: "success_count ps ts = Inl e \<Longrightarrow> e = ValueError"
  by (auto simp: success_count_def split: if_splits)

lemma iteration_accuracy_error:
  "iteration_accuracy g test_img test_labels train_data n = Inl e
     \<Longrightarrow> e = ValueError \<or> e = IndexError"
  by (auto simp: iteration_accuracy_def predicted_results_def split: sum.splits prod.splits
      dest: get_random_subset_error classify_each_error success_count_error)

lemma accuracy_loop_error:
  "accuracy_loop k g t test_img test_labels train_data n = Inl e
     \<Longrightarrow> e = ValueError \<or> e = IndexError"
proof (induction k arbitrary: g t)
  case 0
  then show ?case by simp
next
  case (Suc k)
  then show ?case
    by (auto split: sum.splits prod.splits dest: iteration_accuracy_error)
qed

subsection \<open>Exact binary64 arithmetic on small integers\<close>





















subsection \<open>The binary64 classifiers on exact data\<close>















subsection \<open>Evaluation of the rounding\<close>












section \<open>The claims\<close>

subsection \<open>The two classifiers\<close>

text \<open>
  Claim C1, as amended. For a training array and a test array of the same row length that
  are not both without rows, \<^verbatim>\<open>classify_images\<close> (the whole distance matrix at once) and
  the comprehension over \<^verbatim>\<open>classify_image\<close> (one test image at a time) give the same
  result: the same list of labels, or the same exception.
\<close>

theorem batched_eq_streaming:
  assumes "wf_mat train_img" and "wf_mat test_img" and "ncols test_img = ncols train_img"
    and "rows train_img \<noteq> [] \<or> rows test_img \<noteq> []"
  shows "classify_images (ncols train_img) train_img train_labels test_img
             (length (rows train_img)) (length (rows test_img))
           = predicted_results test_img train_img train_labels"
proof (cases "rows train_img = []")
  case True
  then have "rows test_img \<noteq> []" using assms(4) by simp
  then have "predicted_results test_img train_img train_labels = Inl ValueError"
    using True by (simp add: predicted_results_def classify_each_empty)
  moreover have "classify_images (ncols train_img) train_img train_labels test_img
             (length (rows train_img)) (length (rows test_img)) = Inl ValueError"
    using classify_images_empty [OF assms(2,3) True] True by simp
  ultimately show ?thesis by simp
next
  case False
  show ?thesis
    by (simp only: classify_images_nearest [OF assms(1-3) False]
        predicted_results_nearest [OF assms(1-3) False])
qed

theorem batched_eq_streaming_witness:
  "classify_images (ncols example_pool) example_pool example_labels example_queries
       (length (rows example_pool)) (length (rows example_queries))
     = predicted_results example_queries example_pool example_labels
   \<and> predicted_results example_queries example_pool example_labels = Inr [0, 1]"
proof (intro conjI)
  show "predicted_results example_queries example_pool example_labels = Inr [0, 1]"
    by (simp add: example_pool_def example_labels_def example_queries_def classify_defs)
qed (rule batched_eq_streaming,
    simp_all add: example_pool_def example_labels_def example_queries_def wf_mat_def)

text \<open>
  With no training image and no test image the two differ: the comprehension runs over
  nothing and returns the empty list, while \<^verbatim>\<open>DM.argmin(axis = 0)\<close> of a matrix without rows
  raises \<^verbatim>\<open>ValueError\<close>.
\<close>

theorem batched_eq_streaming_counterexample:
  "classify_images 2 \<lparr>ncols = 2, rows = []\<rparr> [] \<lparr>ncols = 2, rows = []\<rparr> 0 0 = Inl ValueError
   \<and> predicted_results \<lparr>ncols = 2, rows = []\<rparr> \<lparr>ncols = 2, rows = []\<rparr> [] = Inr []"
  by (simp add: classify_images_def reshape_def argmin_axis0_def predicted_results_def)










text \<open>
  Claim C9, as amended. In the end-to-end scenario the query \<open>(0, 0.4)\<close> is nearest to
  \<open>(0, 0)\<close>, at squared distance 0.16 (against 0.36 for \<open>(0, 1)\<close>), and gets label 0; the
  query \<open>(5, 5.4)\<close> is nearest to \<open>(5, 5)\<close>, at 0.16 (against 0.36 for \<open>(5, 6)\<close>), and gets
  label 1. \<^verbatim>\<open>classify_images\<close> returns the same two labels.
\<close>

theorem scenario_nearest:
  "classify_image_DM [0, 4 / 10] example_pool = Inr [16 / 100, 36 / 100, 4616 / 100, 5636 / 100]
   \<and> classify_image_index [0, 4 / 10] example_pool = Inr 0
   \<and> rows example_pool ! 0 = [0, 0]
   \<and> classify_image [0, 4 / 10] example_pool example_labels = Inr 0
   \<and> classify_image_DM [5, 54 / 10] example_pool = Inr [5416 / 100, 4436 / 100, 16 / 100, 36 / 100]
   \<and> classify_image_index [5, 54 / 10] example_pool = Inr 2
   \<and> rows example_pool ! 2 = [5, 5]
   \<and> classify_image [5, 54 / 10] example_pool example_labels = Inr 1
   \<and> classify_images 2 example_pool example_labels example_queries 4 2 = Inr [0, 1]"
  by (simp add: example_pool_def example_labels_def example_queries_def classify_defs
      classify_images_def reshape_def argmin_axis0_def getitems_def eval_nat_numeral)

theorem scenario_nearest_witness:
  "predicted_results example_queries example_pool example_labels = Inr [0, 1]"
  using scenario_nearest by (simp add: predicted_results_def example_queries_def)

text \<open>The reference point \<open>(0, 1)\<close> is not the nearest one to \<open>(0, 0.4)\<close>.\<close>

theorem scenario_nearest_counterexample:
  "rows example_pool ! 1 = [0, 1]
   \<and> classify_image_index [0, 4 / 10] example_pool \<noteq> Inr 1
   \<and> sq_dist [0, 4 / 10] [0, 0] < sq_dist [0, 4 / 10] [0, 1]"
  by (simp add: example_pool_def example_labels_def example_queries_def classify_defs
      sq_dist_def lessThan_Suc eval_nat_numeral)

subsection \<open>The sampler\<close>

text \<open>
  Claim C4. For a data set with a label column and \<open>0 < n \<le> size\<close>, \<^verbatim>\<open>get_random_subset\<close>
  returns \<open>n\<close> labels and \<open>n\<close> images; they come from \<open>n\<close> distinct row indices of the data
  set, and at each position the label is column 0 of that row (cast to a 64-bit integer,
  so equal to it when it holds an integer of the range of \<^verbatim>\<open>int64\<close>, as every class label
  does) and the image is the rest of the same row.
\<close>

theorem sample_rows:
  assumes "wf_mat data" and "0 < ncols data" and "rng_ok g (length (rows data))"
    and "0 < n" and "n \<le> int (length (rows data))"
  shows "\<exists>labels images g' idx.
           get_random_subset g data n = Inr ((labels, images), g')
           \<and> length labels = nat n \<and> length (rows images) = nat n
           \<and> length idx = nat n \<and> distinct idx \<and> set idx \<subseteq> {..<length (rows data)}
           \<and> (\<forall>i < nat n.
                 labels ! i = astype_int (rows data ! (idx ! i) ! 0)
                 \<and> (\<forall>v. rows data ! (idx ! i) ! 0 = of_int v \<and> - (2 ^ 63) \<le> v \<and> v < 2 ^ 63
                        \<longrightarrow> labels ! i = v)
                 \<and> rows images ! i = drop 1 (rows data ! (idx ! i)))"
proof -
  let ?idx = "take (nat n) (g 0)"
  let ?labels = "map (\<lambda>i. astype_int (hd (rows data ! i))) ?idx"
  let ?images = "\<lparr>ncols = ncols data - 1, rows = map (\<lambda>i. tl (rows data ! i)) ?idx\<rparr>"
  have perm: "distinct (g 0)" "set (g 0) = {..<length (rows data)}"
    using assms(3) by (simp_all add: rng_ok_def)
  have len_g: "length (g 0) = length (rows data)"
    using perm by (rule permutation_length)
  have len: "length ?idx = nat n" using len_g assms(5) by simp
  have dist: "distinct ?idx" using perm(1) by simp
  have sub: "set ?idx \<subseteq> {..<length (rows data)}"
    using perm(2) set_take_subset [of "nat n" "g 0"] by simp
  have row: "?labels ! i = astype_int (rows data ! (?idx ! i) ! 0)
             \<and> (\<forall>v. rows data ! (?idx ! i) ! 0 = of_int v \<and> - (2 ^ 63) \<le> v \<and> v < 2 ^ 63
                    \<longrightarrow> ?labels ! i = v)
             \<and> rows ?images ! i = drop 1 (rows data ! (?idx ! i))"
    if i: "i < nat n" for i
  proof -
    have "i < length ?idx" by (simp only: len i)
    then have "?idx ! i \<in> set ?idx" by (rule nth_mem)
    then have "?idx ! i < length (rows data)" using sub by auto
    then have "rows data ! (?idx ! i) \<in> set (rows data)" by simp
    then have "length (rows data ! (?idx ! i)) = ncols data"
      using assms(1) by (simp add: wf_mat_def)
    then have ne: "rows data ! (?idx ! i) \<noteq> []" using assms(2) by auto
    have l: "?labels ! i = astype_int (rows data ! (?idx ! i) ! 0)"
      using i len ne by (simp add: hd_conv_nth)
    have r: "rows ?images ! i = drop 1 (rows data ! (?idx ! i))"
      using i len by (simp add: drop_Suc)
    show ?thesis using l r by (simp add: astype_int_of_int)
  qed
  have "get_random_subset g data n = Inr ((?labels, ?images), advance 1 g)"
    using get_random_subset_in_range [OF assms(2,3) _ assms(5)] assms(4) by simp
  moreover have "length ?labels = nat n" using len by simp
  moreover have "length (rows ?images) = nat n" using len by simp
  ultimately show ?thesis using len dist sub row by blast
qed

theorem sample_rows_witness:
  "(\<exists>labels images g' idx.
     get_random_subset example_rng example_data 2 = Inr ((labels, images), g')
     \<and> length labels = nat 2 \<and> length (rows images) = nat 2
     \<and> length idx = nat 2 \<and> distinct idx \<and> set idx \<subseteq> {..<length (rows example_data)}
     \<and> (\<forall>i < nat 2.
           labels ! i = astype_int (rows example_data ! (idx ! i) ! 0)
           \<and> (\<forall>v. rows example_data ! (idx ! i) ! 0 = of_int v \<and> - (2 ^ 63) \<le> v \<and> v < 2 ^ 63
                  \<longrightarrow> labels ! i = v)
           \<and> rows images ! i = drop 1 (rows example_data ! (idx ! i))))
   \<and> get_random_subset example_rng example_data 2
       = Inr (([9, 7], \<lparr>ncols = 2, rows = [[6, 8], [1, 2]]\<rparr>), advance 1 example_rng)"
proof (intro conjI)
  show "get_random_subset example_rng example_data 2
          = Inr (([9, 7], \<lparr>ncols = 2, rows = [[6, 8], [1, 2]]\<rparr>), advance 1 example_rng)"
    using get_random_subset_in_range [OF ncols_example_data rng_ok_example, of 2]
    by (simp add: example_data_def astype_int_def example_rng_def)
qed (rule sample_rows [OF wf_example_data ncols_example_data rng_ok_example],
    simp_all add: example_data_def)

text \<open>
  Claim C6, as amended. For a data set with a label column, \<^verbatim>\<open>get_random_subset\<close> raises
  exactly when \<open>n\<close> is negative or greater than the number of rows, and the exception is
  \<^verbatim>\<open>ValueError\<close>; for \<open>n = 0\<close> it returns no labels and no images.
\<close>

theorem sample_fails:
  assumes "0 < ncols data" and "rng_ok g (length (rows data))"
  shows "(n < 0 \<or> int (length (rows data)) < n
            \<longrightarrow> get_random_subset g data n = Inl ValueError)
         \<and> (0 \<le> n \<and> n \<le> int (length (rows data))
            \<longrightarrow> (\<exists>r. get_random_subset g data n = Inr r))
         \<and> get_random_subset g data 0
             = Inr (([], \<lparr>ncols = ncols data - 1, rows = []\<rparr>), advance 1 g)"
proof (intro conjI impI)
  assume "n < 0 \<or> int (length (rows data)) < n"
  then show "get_random_subset g data n = Inl ValueError"
    by (rule get_random_subset_out_of_range)
next
  assume "0 \<le> n \<and> n \<le> int (length (rows data))"
  then show "\<exists>r. get_random_subset g data n = Inr r"
    using get_random_subset_in_range [OF assms] by blast
next
  show "get_random_subset g data 0
          = Inr (([], \<lparr>ncols = ncols data - 1, rows = []\<rparr>), advance 1 g)"
    using get_random_subset_in_range [OF assms, of 0] by simp
qed

theorem sample_fails_witness:
  "get_random_subset example_rng example_data 4 = Inl ValueError
   \<and> (\<exists>r. get_random_subset example_rng example_data 3 = Inr r)
   \<and> get_random_subset example_rng example_data 0
       = Inr (([], \<lparr>ncols = ncols example_data - 1, rows = []\<rparr>), advance 1 example_rng)"
  using sample_fails [OF ncols_example_data rng_ok_example, of 4]
    sample_fails [OF ncols_example_data rng_ok_example, of 3]
  by (simp add: example_data_def)

text \<open>Asking for no rows of a data set of three rows does not raise.\<close>

theorem sample_fails_counterexample:
  "get_random_subset example_rng example_data 0
     = Inr (([], \<lparr>ncols = 2, rows = []\<rparr>), advance 1 example_rng)"
  by (simp add: get_random_subset_def choice_def example_data_def)

subsection \<open>The experiment\<close>

text \<open>
  Claim C5. Take test images with one true label each (at least one) and a schedule whose
  repetition counts are all at least 1. Whenever \<^verbatim>\<open>accuracy_info\<close> returns, it returns
  one value per schedule entry, in schedule order. The value of an entry is the
  arithmetic mean of as many accuracies as the entry has repetitions; the accuracy of
  a repetition is the number of predictions matching the true labels divided by the
  number of queries, for the random subset of the entry's size that the generator draws
  at that repetition (every repetition before it has taken one draw); and the mean lies
  between 0 and 1. And \<^verbatim>\<open>accuracy_info\<close> does return when, besides, the training pool has
  a label column and images of the length of the test images, and every size of the
  schedule lies between 1 and the size of the pool.
\<close>

theorem accuracy_curve:
  assumes "length test_labels = length (rows test_img)" and "rows test_img \<noteq> []"
    and "\<forall>(n, k) \<in> set (zip size_of_subset_v count_of_iters_v). 1 \<le> k"
  shows "(\<forall>pts g'.
            accuracy_info g test_img test_labels train_data size_of_subset_v count_of_iters_v
              = Inr (pts, g')
            \<longrightarrow> length pts = length (zip size_of_subset_v count_of_iters_v)
              \<and> (\<forall>j < length pts. \<exists>accs.
                    length accs = nat (count_of_iters_v ! j)
                    \<and> pts ! j = Fin (mean accs) \<and> 0 \<le> mean accs \<and> mean accs \<le> 1
                    \<and> (\<forall>i < nat (count_of_iters_v ! j). \<exists>labels images ps.
                          get_random_subset
                              (advance (sum_list (map nat (take j count_of_iters_v)) + i) g)
                              train_data (size_of_subset_v ! j)
                            = Inr ((labels, images),
                                   advance (Suc (sum_list (map nat (take j count_of_iters_v)) + i))
                                     g)
                          \<and> predicted_results test_img images labels = Inr ps
                          \<and> length ps = length test_labels
                          \<and> accs ! i = accuracy ps test_labels)))
         \<and> (wf_mat train_data \<and> wf_mat test_img \<and> ncols train_data = Suc (ncols test_img)
              \<and> rng_ok g (length (rows train_data))
              \<and> (\<forall>(n, k) \<in> set (zip size_of_subset_v count_of_iters_v).
                    0 < n \<and> n \<le> int (length (rows train_data)))
            \<longrightarrow> (\<exists>pts g'.
                  accuracy_info g test_img test_labels train_data size_of_subset_v
                    count_of_iters_v = Inr (pts, g')))"
proof (intro conjI allI impI)
  fix pts g'
  let ?sched = "zip size_of_subset_v count_of_iters_v"
  assume "accuracy_info g test_img test_labels train_data size_of_subset_v count_of_iters_v
            = Inr (pts, g')"
  then have run: "accuracy_each g test_img test_labels train_data ?sched = Inr (pts, g')"
    by (simp add: accuracy_info_def)
  show len: "length pts = length ?sched"
    using accuracy_each_returns [OF assms run] by blast
  have pts: "\<forall>j < length ?sched.
               curve_point (advance (sum_list (map nat (take j (map snd ?sched)))) g)
                 test_img test_labels train_data
                 (fst (?sched ! j)) (snd (?sched ! j)) (pts ! j)"
    using accuracy_each_returns [OF assms run] by blast
  fix j assume j: "j < length pts"
  let ?d = "sum_list (map nat (take j count_of_iters_v))"
  have js: "j < length ?sched" using j len by simp
  then have fst: "fst (?sched ! j) = size_of_subset_v ! j"
    and snd: "snd (?sched ! j) = count_of_iters_v ! j" by simp_all
  have "take j (map snd ?sched) = take j count_of_iters_v"
    using js by (intro nth_equalityI) simp_all
  then have "curve_point (advance ?d g) test_img test_labels train_data
               (size_of_subset_v ! j) (count_of_iters_v ! j) (pts ! j)"
    using pts js fst snd by metis
  then obtain accs where
    a1: "length accs = nat (count_of_iters_v ! j)" and a2: "pts ! j = Fin (mean accs)"
    and a3: "0 \<le> mean accs" and a4: "mean accs \<le> 1"
    and a5: "\<forall>i < nat (count_of_iters_v ! j).
               drawn_accuracy (advance i (advance ?d g)) test_img test_labels train_data
                 (size_of_subset_v ! j) (accs ! i)"
    unfolding curve_point_def by blast
  have "\<exists>labels images ps.
          get_random_subset (advance (?d + i) g) train_data (size_of_subset_v ! j)
            = Inr ((labels, images), advance (Suc (?d + i)) g)
          \<and> predicted_results test_img images labels = Inr ps
          \<and> length ps = length test_labels
          \<and> accs ! i = accuracy ps test_labels"
    if "i < nat (count_of_iters_v ! j)" for i
  proof -
    have "drawn_accuracy (advance i (advance ?d g)) test_img test_labels train_data
            (size_of_subset_v ! j) (accs ! i)"
      using a5 that by blast
    then show ?thesis
      unfolding drawn_accuracy_def by (simp add: advance_advance add.commute)
  qed
  with a1 a2 a3 a4 show "\<exists>accs.
      length accs = nat (count_of_iters_v ! j)
      \<and> pts ! j = Fin (mean accs) \<and> 0 \<le> mean accs \<and> mean accs \<le> 1
      \<and> (\<forall>i < nat (count_of_iters_v ! j). \<exists>labels images ps.
            get_random_subset (advance (?d + i) g) train_data (size_of_subset_v ! j)
              = Inr ((labels, images), advance (Suc (?d + i)) g)
            \<and> predicted_results test_img images labels = Inr ps
            \<and> length ps = length test_labels
            \<and> accs ! i = accuracy ps test_labels)"
    by blast
next
  let ?sched = "zip size_of_subset_v count_of_iters_v"
  assume valid: "wf_mat train_data \<and> wf_mat test_img \<and> ncols train_data = Suc (ncols test_img)
              \<and> rng_ok g (length (rows train_data))
              \<and> (\<forall>(n, k) \<in> set ?sched. 0 < n \<and> n \<le> int (length (rows train_data)))"
  then have "\<forall>(n, k) \<in> set ?sched. 0 < n \<and> n \<le> int (length (rows train_data)) \<and> 1 \<le> k"
    using assms(3) by fastforce
  then have "\<exists>pts g'. accuracy_each g test_img test_labels train_data ?sched = Inr (pts, g')"
    using accuracy_each_total [of train_data test_img test_labels g ?sched] valid assms(1,2)
    by blast
  then show "\<exists>pts g'.
      accuracy_info g test_img test_labels train_data size_of_subset_v count_of_iters_v
        = Inr (pts, g')"
    by (simp add: accuracy_info_def)
qed

theorem accuracy_curve_witness:
  "\<exists>pts g'.
     accuracy_info example_rng4 example_queries example_test_labels example_train [2, 4] [2, 1]
       = Inr (pts, g')
     \<and> pts = [Fin (3 / 4), Fin 1]
     \<and> length pts = length (zip [2, 4 :: int] [2, 1 :: int])
     \<and> (\<forall>j < length pts. \<exists>accs.
           length accs = nat ([2, 1] ! j)
           \<and> pts ! j = Fin (mean accs) \<and> 0 \<le> mean accs \<and> mean accs \<le> 1
           \<and> (\<forall>i < nat ([2, 1] ! j). \<exists>labels images ps.
                 get_random_subset
                     (advance (sum_list (map nat (take j [2, 1])) + i) example_rng4)
                     example_train ([2, 4] ! j)
                   = Inr ((labels, images),
                          advance (Suc (sum_list (map nat (take j [2, 1])) + i)) example_rng4)
                 \<and> predicted_results example_queries images labels = Inr ps
                 \<and> length ps = length example_test_labels
                 \<and> accs ! i = accuracy ps example_test_labels))"
proof -
  have labelled: "length example_test_labels = length (rows example_queries)"
    by (simp add: example_test_labels_def example_queries_def)
  have queries: "rows example_queries \<noteq> []"
    by (simp add: example_queries_def)
  have counts: "\<forall>(n, k) \<in> set (zip [2, 4 :: int] [2, 1 :: int]). 1 \<le> k"
    by simp
  have "\<exists>g'. accuracy_info example_rng4 example_queries example_test_labels example_train
               [2, 4] [2, 1] = Inr ([Fin (3 / 4), Fin 1], g')"
    by (simp add: experiment_defs classify_defs eval_nat_numeral example_train_def
        example_test_labels_def example_rng4_def example_queries_def)
  then obtain g' where
    run: "accuracy_info example_rng4 example_queries example_test_labels example_train
            [2, 4] [2, 1] = Inr ([Fin (3 / 4), Fin 1], g')"
    by blast
  note props = accuracy_curve [OF labelled queries counts, THEN conjunct1, rule_format, OF run]
  show ?thesis
    by (intro exI conjI, rule run, rule refl, rule props [THEN conjunct1],
        rule props [THEN conjunct2])
qed

text \<open>
  Claim C8, as amended. With no sizes or no repetition counts the comprehension of
  \<^verbatim>\<open>accuracy_info\<close> runs over nothing: it returns the empty list, raises nothing and leaves
  the generator as it was.
\<close>

theorem empty_schedule:
  "accuracy_info g test_img test_labels train_data [] count_of_iters_v = Inr ([], g)
   \<and> accuracy_info g test_img test_labels train_data size_of_subset_v [] = Inr ([], g)"
  by (simp add: accuracy_info_def)

theorem empty_schedule_witness:
  "accuracy_info example_rng4 example_queries example_test_labels example_train [] [2, 1]
     = Inr ([], example_rng4)
   \<and> accuracy_info example_rng4 example_queries example_test_labels example_train [2, 4] []
     = Inr ([], example_rng4)"
  by (rule empty_schedule)

text \<open>The empty schedule on the example data returns a result.\<close>

theorem empty_schedule_counterexample:
  "accuracy_info example_rng4 example_queries example_test_labels example_train [] []
     = Inr ([], example_rng4)"
  by (simp add: accuracy_info_def)

text \<open>
  Claim C10. \<^verbatim>\<open>get_average_accuracy\<close> with \<open>iterations_count = 0\<close> raises
  \<^verbatim>\<open>ZeroDivisionError\<close>, whatever the other arguments are, and with no other count does it
  raise that exception: in particular not with a count of at least 1.
\<close>

theorem zero_iterations:
  "(get_average_accuracy g test_img test_labels train_data train_subset_size iterations_count
      = Inl ZeroDivisionError) = (iterations_count = 0)"
proof
  assume z: "get_average_accuracy g test_img test_labels train_data train_subset_size
               iterations_count = Inl ZeroDivisionError"
  show "iterations_count = 0"
  proof (rule ccontr)
    assume "iterations_count \<noteq> 0"
    then have "accuracy_loop (nat iterations_count) g (Fin 0) test_img test_labels train_data
                 train_subset_size = Inl ZeroDivisionError"
      using z by (auto simp: get_average_accuracy_def split: sum.splits prod.splits)
    then show False using accuracy_loop_error by blast
  qed
next
  assume "iterations_count = 0"
  then show "get_average_accuracy g test_img test_labels train_data train_subset_size
               iterations_count = Inl ZeroDivisionError"
    by (simp add: get_average_accuracy_def)
qed

theorem zero_iterations_witness:
  "get_average_accuracy example_rng4 example_queries example_test_labels example_train 2 0
     = Inl ZeroDivisionError
   \<and> get_average_accuracy example_rng4 example_queries example_test_labels example_train 2 1
     \<noteq> Inl ZeroDivisionError"
  using zero_iterations [of example_rng4 example_queries example_test_labels example_train 2 0]
    zero_iterations [of example_rng4 example_queries example_test_labels example_train 2 1]
  by simp

end
